theory Spec2Isabelle
  imports Complex_Main
begin

section \<open>Python values and errors\<close>

text \<open>
  The blocks of \<^verbatim>\<open>micro_diffusion/models/dit.py\<close> are embedded as functions that
  return either the exception the Python raises or the value it computes. Python's
  \<^verbatim>\<open>int\<close> is \<^typ>\<open>int\<close>; a finite Python \<^verbatim>\<open>float\<close> is a \<^typ>\<open>real\<close>. The per-expert
  capacity of the Expert-Choice layer is an integer cut out of a float product and quotient:
  there each operation is followed by the rounding \<open>fl\<close> of binary64 arithmetic, which
  the model takes as a parameter. Elsewhere products and quotients are exact.
\<close>

datatype error = AssertionError | ZeroDivisionError | AttributeError | RuntimeError | ValueError | IndexError

type_synonym 'a result = "error + 'a"

definition and_then :: "'a result \<Rightarrow> ('a \<Rightarrow> 'b result) \<Rightarrow> 'b result" where
  "and_then r f = (case r of Inl e \<Rightarrow> Inl e | Inr v \<Rightarrow> f v)"

definition py_assert :: "bool \<Rightarrow> unit result" where
  "py_assert b = (if b then Inr () else Inl AssertionError)"

definition py_int :: "real \<Rightarrow> int" where
  \<comment> \<open>\<^verbatim>\<open>int(x)\<close> of a float: truncation toward zero.\<close>
  "py_int r = (if 0 \<le> r then \<lfloor>r\<rfloor> else \<lceil>r\<rceil>)"

definition py_floordiv :: "int \<Rightarrow> int \<Rightarrow> int result" where
  \<comment> \<open>\<^verbatim>\<open>a // b\<close> on ints: floor division, as \<open>div\<close> on \<^typ>\<open>int\<close>.\<close>
  "py_floordiv a b = (if b = 0 then Inl ZeroDivisionError else Inr (a div b))"

definition py_mod :: "int \<Rightarrow> int \<Rightarrow> int result" where
  \<comment> \<open>\<^verbatim>\<open>a % b\<close> on ints: the sign follows the divisor, as \<open>mod\<close> on \<^typ>\<open>int\<close>.\<close>
  "py_mod a b = (if b = 0 then Inl ZeroDivisionError else Inr (a mod b))"

definition py_truediv :: "real \<Rightarrow> real \<Rightarrow> real result" where
  "py_truediv a b = (if b = 0 then Inl ZeroDivisionError else Inr (a / b))"

datatype pynum = PyFloat real | PyComplex complex

definition py_pow_half :: "int \<Rightarrow> pynum" where
  \<comment> \<open>\<^verbatim>\<open>b ** 0.5\<close> for an int \<open>b\<close>: a float for \<open>b \<ge> 0\<close> (\<open>0 ** 0.5\<close> is \<open>0.0\<close>),
      the principal complex root for a negative base.\<close>
  "py_pow_half b = (if 0 \<le> b then PyFloat (real_of_int b powr (1 / 2))
                    else PyComplex (csqrt (of_int b)))"

definition py_float_div :: "real \<Rightarrow> pynum \<Rightarrow> pynum result" where
  \<comment> \<open>\<^verbatim>\<open>a / d\<close> for a float \<open>a\<close>.\<close>
  "py_float_div a d =
     (case d of
        PyFloat r \<Rightarrow> if r = 0 then Inl ZeroDivisionError else Inr (PyFloat (a / r))
      | PyComplex z \<Rightarrow> if z = 0 then Inl ZeroDivisionError else Inr (PyComplex (of_real a / z)))"

section \<open>Tensors\<close>

text \<open>
  A tensor is its shape and its entries, read by a multi-index. Only the entries whose
  index lies inside the shape belong to the tensor.
\<close>

record tensor =
  shape :: "nat list"
  item :: "nat list \<Rightarrow> real"

record index_tensor =
  ishape :: "nat list"
  iitem :: "nat list \<Rightarrow> nat"

definition numel :: "nat list \<Rightarrow> nat" where
  "numel s = prod_list s"

definition torch_ones :: "int list \<Rightarrow> tensor result" where
  \<comment> \<open>\<^verbatim>\<open>torch.ones(*sizes)\<close>: a negative size is refused.\<close>
  "torch_ones sizes =
     (if \<exists>d \<in> set sizes. d < 0 then Inl RuntimeError
      else Inr \<lparr>shape = map nat sizes, item = (\<lambda>i. 1)\<rparr>)"

section \<open>torch.nn: modules, parameters, Linear\<close>

text \<open>
  \<^verbatim>\<open>nn.Module.__setattr__\<close> stores a plain value in the instance dictionary, and
  registers a submodule or a parameter in the tables that \<^verbatim>\<open>nn.Module.__init__\<close>
  creates; before that call the tables are missing and it raises AttributeError
  ("cannot assign module before Module.__init__() call", likewise for parameters).
  The flag says whether \<^verbatim>\<open>super().__init__()\<close> has run.
\<close>

definition Module_assign_module :: "bool \<Rightarrow> 'a \<Rightarrow> 'a result" where
  "Module_assign_module initialised m = (if initialised then Inr m else Inl AttributeError)"

definition Module_assign_parameter :: "bool \<Rightarrow> 'a \<Rightarrow> 'a result" where
  "Module_assign_parameter initialised p = (if initialised then Inr p else Inl AttributeError)"

record linear =
  in_features :: nat
  out_features :: nat
  weight :: tensor
  bias :: "tensor option"

text \<open>
  The values that \<^verbatim>\<open>nn.Linear\<close> draws for a new weight or bias come from the random
  generator; the model takes them as a parameter \<open>draw\<close>, by parameter name.
\<close>

definition Linear_new :: "(string \<Rightarrow> nat list \<Rightarrow> real) \<Rightarrow> string \<Rightarrow> int \<Rightarrow> int \<Rightarrow> bool \<Rightarrow> linear result" where
  "Linear_new draw name n_in n_out use_bias =
     (if n_in < 0 \<or> n_out < 0 then Inl RuntimeError
      else Inr \<lparr>in_features = nat n_in, out_features = nat n_out,
                weight = \<lparr>shape = [nat n_out, nat n_in], item = draw (name @ ''.weight'')\<rparr>,
                bias = (if use_bias then Some \<lparr>shape = [nat n_out], item = draw (name @ ''.bias'')\<rparr>
                        else None)\<rparr>)"

section \<open>FeedForwardNetwork: construction\<close>

record FeedForwardNetwork =
  ffn_n_hidden :: int
  ffn_fc1 :: linear
  ffn_fc2 :: linear
  ffn_fc3 :: linear

definition FeedForwardNetwork_n_hidden :: "int \<Rightarrow> int \<Rightarrow> int result" where
  \<comment> \<open>the two assignments to \<^verbatim>\<open>self.n_hidden\<close>; the second overwrites the first and
      reads the argument \<^verbatim>\<open>n_hidden\<close>.\<close>
  "FeedForwardNetwork_n_hidden n_hidden hidden_base_mult =
     (let self_n_hidden = py_int (2 * real_of_int n_hidden / 3) in
      and_then (py_floordiv (n_hidden + hidden_base_mult - 1) hidden_base_mult) (\<lambda>q.
      let self_n_hidden = hidden_base_mult * q in
      Inr self_n_hidden))"

definition FeedForwardNetwork_init ::
  "(string \<Rightarrow> nat list \<Rightarrow> real) \<Rightarrow> int \<Rightarrow> int \<Rightarrow> int \<Rightarrow> bool \<Rightarrow> FeedForwardNetwork result" where
  "FeedForwardNetwork_init draw n_embd n_hidden hidden_base_mult use_bias =
     (let initialised = True in
      and_then (FeedForwardNetwork_n_hidden n_hidden hidden_base_mult) (\<lambda>self_n_hidden.
      and_then (Linear_new draw ''fc1'' n_embd self_n_hidden use_bias) (\<lambda>l1.
      and_then (Module_assign_module initialised l1) (\<lambda>fc1.
      and_then (Linear_new draw ''fc2'' n_embd self_n_hidden use_bias) (\<lambda>l2.
      and_then (Module_assign_module initialised l2) (\<lambda>fc2.
      and_then (Linear_new draw ''fc3'' self_n_hidden n_embd use_bias) (\<lambda>l3.
      and_then (Module_assign_module initialised l3) (\<lambda>fc3.
      Inr \<lparr>ffn_n_hidden = self_n_hidden, ffn_fc1 = fc1, ffn_fc2 = fc2, ffn_fc3 = fc3\<rparr>))))))))"

section \<open>FeedForwardECMoe: construction\<close>

record FeedForwardECMoe =
  moe_num_experts :: int
  moe_expert_capacity :: real
  moe_n_embd :: int
  moe_hidden_base_mult :: int
  moe_n_hidden :: int
  moe_gate :: linear
  moe_w1 :: tensor
  moe_gelu :: "real \<Rightarrow> real"
  moe_w2 :: tensor

definition FeedForwardECMoe_n_hidden :: "int \<Rightarrow> int \<Rightarrow> int result" where
  "FeedForwardECMoe_n_hidden n_hidden hidden_base_mult =
     and_then (py_floordiv (n_hidden + hidden_base_mult - 1) hidden_base_mult) (\<lambda>q.
     Inr (hidden_base_mult * q))"

text \<open>
  \<^verbatim>\<open>FeedForwardECMoe.__init__\<close> does not call \<^verbatim>\<open>super().__init__()\<close>: the plain
  attributes are stored, and the module tables do not exist when the gate is assigned.
  \<open>gelu\<close> stands for the activation that \<^verbatim>\<open>nn.GELU()\<close> computes.
\<close>

datatype attr = IntAttr int | FloatAttr real

definition FeedForwardECMoe_init_run ::
  "(string \<Rightarrow> nat list \<Rightarrow> real) \<Rightarrow> (real \<Rightarrow> real) \<Rightarrow> int \<Rightarrow> real \<Rightarrow> int \<Rightarrow> int \<Rightarrow> int
     \<Rightarrow> (string \<rightharpoonup> attr) \<times> FeedForwardECMoe result" where
  \<comment> \<open>the run of \<^verbatim>\<open>__init__\<close>: the plain attributes that \<^verbatim>\<open>self\<close> holds when the
      constructor stops, and the instance it returns or the error it raises\<close>
  "FeedForwardECMoe_init_run draw gelu num_experts expert_capacity n_embd n_hidden hidden_base_mult =
     (let initialised = False;
          d = [''num_experts'' \<mapsto> IntAttr num_experts,
               ''expert_capacity'' \<mapsto> FloatAttr expert_capacity,
               ''n_embd'' \<mapsto> IntAttr n_embd,
               ''hidden_base_mult'' \<mapsto> IntAttr hidden_base_mult]
      in case FeedForwardECMoe_n_hidden n_hidden hidden_base_mult of
           Inl e \<Rightarrow> (d, Inl e)
         | Inr self_n_hidden \<Rightarrow>
            (d(''n_hidden'' \<mapsto> IntAttr self_n_hidden),
             and_then (Linear_new draw ''gate'' n_embd num_experts False) (\<lambda>l.
             and_then (Module_assign_module initialised l) (\<lambda>gate.
             and_then (torch_ones [num_experts, n_embd, n_hidden]) (\<lambda>o1.
             and_then (Module_assign_parameter initialised o1) (\<lambda>w1.
             and_then (Module_assign_module initialised gelu) (\<lambda>self_gelu.
             and_then (torch_ones [num_experts, n_hidden, n_embd]) (\<lambda>o2.
             and_then (Module_assign_parameter initialised o2) (\<lambda>w2.
             Inr \<lparr>moe_num_experts = num_experts, moe_expert_capacity = expert_capacity,
                  moe_n_embd = n_embd, moe_hidden_base_mult = hidden_base_mult,
                  moe_n_hidden = self_n_hidden, moe_gate = gate, moe_w1 = w1,
                  moe_gelu = self_gelu, moe_w2 = w2\<rparr>)))))))))"

definition FeedForwardECMoe_init ::
  "(string \<Rightarrow> nat list \<Rightarrow> real) \<Rightarrow> (real \<Rightarrow> real) \<Rightarrow> int \<Rightarrow> real \<Rightarrow> int \<Rightarrow> int \<Rightarrow> int
     \<Rightarrow> FeedForwardECMoe result" where
  "FeedForwardECMoe_init draw gelu num_experts expert_capacity n_embd n_hidden hidden_base_mult =
     snd (FeedForwardECMoe_init_run draw gelu num_experts expert_capacity n_embd n_hidden
            hidden_base_mult)"

section \<open>DiTBlock: construction\<close>

text \<open>
  \<^verbatim>\<open>create_norm\<close>, \<^verbatim>\<open>SelfAttention\<close> and \<^verbatim>\<open>CrossAttention\<close> are imported from
  \<^verbatim>\<open>.modules\<close>. Their constructors and their forward passes are parameters of the
  model: each constructor may raise, and each forward pass maps tensors to a tensor
  or raises. The record also carries the rounding of the float arithmetic in which the
  forward pass runs.
\<close>

record ('n, 'a, 'x) modules =
  create_norm :: "string \<Rightarrow> int \<Rightarrow> real \<Rightarrow> 'n result"
  SelfAttention :: "int \<Rightarrow> int \<Rightarrow> bool \<Rightarrow> int \<Rightarrow> real \<Rightarrow> 'a result"
  CrossAttention :: "int \<Rightarrow> int \<Rightarrow> int \<Rightarrow> real \<Rightarrow> bool \<Rightarrow> 'x result"
  norm_forward :: "'n \<Rightarrow> tensor \<Rightarrow> tensor result"
  SelfAttention_forward :: "'a \<Rightarrow> tensor \<Rightarrow> tensor result"
  CrossAttention_forward :: "'x \<Rightarrow> tensor \<Rightarrow> tensor \<Rightarrow> tensor result"
  float_round :: "real \<Rightarrow> real"

record torch_env =
  env_draw :: "string \<Rightarrow> nat list \<Rightarrow> real"
  env_GELU :: "real \<Rightarrow> real"

datatype mlp = Dense FeedForwardNetwork | Moe FeedForwardECMoe

record DiTBlock_args =
  arg_n_embd :: int
  arg_head_size :: int
  arg_mlp_n_hidden_mult :: real
  arg_qkv_n_hidden_mult :: real
  arg_hidden_base_mult :: int
  arg_pooled_caption_n_embd :: int
  arg_norm_eps :: real
  arg_depth_init :: bool
  arg_block_index :: int
  arg_num_blocks :: int
  arg_scale_cx_attn_n_hidden :: bool
  arg_use_bias :: bool
  arg_use_moe :: bool
  arg_num_experts :: int
  arg_expert_capacity :: real

record ('n, 'a, 'x) DiTBlock =
  blk_n_embd :: int
  blk_ln1 :: 'n
  blk_attn :: 'a
  blk_ln2 :: 'n
  blk_cx_attn :: 'x
  blk_ln3 :: 'n
  blk_mlp :: mlp
  blk_AdaLN_modulation :: linear
  blk_weight_init_std :: pynum

definition DiTBlock_qkv_n_hidden :: "real \<Rightarrow> int \<Rightarrow> int \<Rightarrow> int result" where
  "DiTBlock_qkv_n_hidden qkv_n_hidden_mult n_embd head_size =
     (if qkv_n_hidden_mult = 1 then Inr n_embd
      else and_then (py_floordiv (py_int (qkv_n_hidden_mult * real_of_int n_embd) + 2 * head_size - 1)
                                 (2 * head_size)) (\<lambda>q.
           Inr (2 * head_size * q)))"

definition DiTBlock_weight_init_std :: "bool \<Rightarrow> int \<Rightarrow> int \<Rightarrow> pynum result" where
  "DiTBlock_weight_init_std depth_init block_index num_blocks =
     (if depth_init then py_float_div (2 / 100) (py_pow_half (3 * (block_index + 1)))
      else py_float_div (2 / 100) (py_pow_half (3 * num_blocks)))"

definition DiTBlock_init ::
  "torch_env \<Rightarrow> ('n, 'a, 'x) modules \<Rightarrow> DiTBlock_args \<Rightarrow> ('n, 'a, 'x) DiTBlock result" where
  "DiTBlock_init env md a =
     (let initialised = True;
          n_embd = arg_n_embd a; head_size = arg_head_size a; norm_eps = arg_norm_eps a;
          use_bias = arg_use_bias a in
      and_then (py_mod n_embd head_size) (\<lambda>r.
      and_then (py_assert (r = 0)) (\<lambda>_.
      and_then (DiTBlock_qkv_n_hidden (arg_qkv_n_hidden_mult a) n_embd head_size) (\<lambda>qkv_n_hidden.
      and_then (create_norm md ''layernorm'' n_embd norm_eps) (\<lambda>n1.
      and_then (Module_assign_module initialised n1) (\<lambda>ln1.
      and_then (py_floordiv qkv_n_hidden head_size) (\<lambda>n_head.
      and_then (SelfAttention md n_embd n_head use_bias qkv_n_hidden norm_eps) (\<lambda>sa.
      and_then (Module_assign_module initialised sa) (\<lambda>attn.
      and_then (create_norm md ''layernorm'' n_embd norm_eps) (\<lambda>n2.
      and_then (Module_assign_module initialised n2) (\<lambda>ln2.
      let cx_attn_n_hidden = (if arg_scale_cx_attn_n_hidden a then qkv_n_hidden else n_embd) in
      and_then (py_floordiv cx_attn_n_hidden head_size) (\<lambda>cx_n_head.
      and_then (CrossAttention md n_embd cx_n_head cx_attn_n_hidden norm_eps use_bias) (\<lambda>ca.
      and_then (Module_assign_module initialised ca) (\<lambda>cx_attn.
      and_then (create_norm md ''layernorm'' n_embd norm_eps) (\<lambda>n3.
      and_then (Module_assign_module initialised n3) (\<lambda>ln3.
      let mlp_n_hidden = py_int (real_of_int n_embd * arg_mlp_n_hidden_mult a) in
      and_then (if arg_use_moe a
                then and_then (FeedForwardECMoe_init (env_draw env) (env_GELU env) (arg_num_experts a)
                                 (arg_expert_capacity a) n_embd mlp_n_hidden (arg_hidden_base_mult a))
                              (\<lambda>m. Inr (Moe m))
                else and_then (FeedForwardNetwork_init (env_draw env) n_embd mlp_n_hidden
                                 (arg_hidden_base_mult a) use_bias)
                              (\<lambda>f. Inr (Dense f))) (\<lambda>m.
      and_then (Module_assign_module initialised m) (\<lambda>mlp.
      and_then (Linear_new (env_draw env) ''AdaLN_modulation.1'' (arg_pooled_caption_n_embd a)
                  (6 * n_embd) True) (\<lambda>l.
      and_then (Module_assign_module initialised l) (\<lambda>AdaLN_modulation.
      and_then (DiTBlock_weight_init_std (arg_depth_init a) (arg_block_index a) (arg_num_blocks a))
        (\<lambda>weight_init_std.
      Inr \<lparr>blk_n_embd = n_embd, blk_ln1 = ln1, blk_attn = attn, blk_ln2 = ln2,
           blk_cx_attn = cx_attn, blk_ln3 = ln3, blk_mlp = mlp,
           blk_AdaLN_modulation = AdaLN_modulation,
           blk_weight_init_std = weight_init_std\<rparr>)))))))))))))))))))))"

section \<open>Tensor operations\<close>

definition indices :: "nat list \<Rightarrow> nat list list" where
  \<comment> \<open>every multi-index inside a shape\<close>
  "indices s = foldr (\<lambda>d rest. concat (map (\<lambda>k. map ((#) k) rest) [0..<d])) s [[]]"

definition tensor_map :: "(real \<Rightarrow> real) \<Rightarrow> tensor \<Rightarrow> tensor" where
  "tensor_map f x = \<lparr>shape = shape x, item = (\<lambda>i. f (item x i))\<rparr>"

definition broadcast_dim :: "nat \<Rightarrow> nat \<Rightarrow> nat result" where
  \<comment> \<open>two sizes of one dimension are compatible when they are equal or one of them is 1\<close>
  "broadcast_dim a b =
     (if a = b then Inr a else if a = 1 then Inr b else if b = 1 then Inr a else Inl RuntimeError)"

definition bidx :: "nat \<Rightarrow> nat \<Rightarrow> nat" where
  \<comment> \<open>the position read in a dimension of size \<open>d\<close>: a dimension of size 1 is repeated\<close>
  "bidx d k = (if d = 1 then 0 else k)"

fun broadcast_shapes_rev :: "nat list \<Rightarrow> nat list \<Rightarrow> nat list result" where
  "broadcast_shapes_rev [] bs = Inr bs"
| "broadcast_shapes_rev as [] = Inr as"
| "broadcast_shapes_rev (a # as) (b # bs) =
     and_then (broadcast_dim a b) (\<lambda>d.
     and_then (broadcast_shapes_rev as bs) (\<lambda>ds. Inr (d # ds)))"

definition broadcast_shapes :: "nat list \<Rightarrow> nat list \<Rightarrow> nat list result" where
  \<comment> \<open>shapes are aligned at their last dimension\<close>
  "broadcast_shapes s1 s2 = and_then (broadcast_shapes_rev (rev s1) (rev s2)) (\<lambda>r. Inr (rev r))"

definition broadcast_index :: "nat list \<Rightarrow> nat list \<Rightarrow> nat list" where
  "broadcast_index s i = map2 bidx s (drop (length i - length s) i)"

definition tensor_binop :: "(real \<Rightarrow> real \<Rightarrow> real) \<Rightarrow> tensor \<Rightarrow> tensor \<Rightarrow> tensor result" where
  "tensor_binop f x y =
     and_then (broadcast_shapes (shape x) (shape y)) (\<lambda>s.
     Inr \<lparr>shape = s,
          item = (\<lambda>i. f (item x (broadcast_index (shape x) i)) (item y (broadcast_index (shape y) i)))\<rparr>)"

definition tensor_add :: "tensor \<Rightarrow> tensor \<Rightarrow> tensor result" where
  "tensor_add = tensor_binop (+)"

definition tensor_mul :: "tensor \<Rightarrow> tensor \<Rightarrow> tensor result" where
  "tensor_mul = tensor_binop (*)"

definition tensor_unsqueeze :: "tensor \<Rightarrow> int \<Rightarrow> tensor result" where
  \<comment> \<open>\<^verbatim>\<open>x.unsqueeze(dim)\<close>: a negative \<open>dim\<close> counts from the end of the new shape\<close>
  "tensor_unsqueeze x axis =
     (let r = int (length (shape x)) in
      if axis < - (r + 1) \<or> r < axis then Inl IndexError
      else let d = nat (if axis < 0 then axis + r + 1 else axis) in
           Inr \<lparr>shape = take d (shape x) @ [1] @ drop d (shape x),
                item = (\<lambda>i. item x (take d i @ drop (Suc d) i))\<rparr>)"

definition Linear_forward :: "linear \<Rightarrow> tensor \<Rightarrow> tensor result" where
  \<comment> \<open>\<^verbatim>\<open>y = x W\<^sup>T + b\<close> over the last dimension\<close>
  "Linear_forward l x =
     (if shape x = [] \<or> last (shape x) \<noteq> in_features l then Inl RuntimeError
      else Inr \<lparr>shape = butlast (shape x) @ [out_features l],
                item = (\<lambda>i. (\<Sum>k\<leftarrow>[0..<in_features l]. item x (butlast i @ [k]) * item (weight l) [last i, k])
                            + (case bias l of None \<Rightarrow> 0 | Some b \<Rightarrow> item b [last i]))\<rparr>)"

definition softmax_last :: "tensor \<Rightarrow> tensor" where
  \<comment> \<open>\<^verbatim>\<open>F.softmax(x, dim=-1)\<close>\<close>
  "softmax_last x =
     \<lparr>shape = shape x,
      item = (\<lambda>i. exp (item x i) / (\<Sum>e\<leftarrow>[0..<last (shape x)]. exp (item x (butlast i @ [e]))))\<rparr>"

definition permute_0_2_1 :: "tensor \<Rightarrow> tensor result" where
  \<comment> \<open>\<^verbatim>\<open>x.permute(0, 2, 1)\<close>\<close>
  "permute_0_2_1 x =
     (case shape x of
        [d0, d1, d2] \<Rightarrow> Inr \<lparr>shape = [d0, d2, d1],
                              item = (\<lambda>i. case i of [a, b, c] \<Rightarrow> item x [a, c, b] | _ \<Rightarrow> 0)\<rparr>
      | _ \<Rightarrow> Inl RuntimeError)"

definition topk_order :: "tensor \<Rightarrow> nat list \<Rightarrow> nat list" where
  \<comment> \<open>the positions of one row in descending order of their entries\<close>
  "topk_order x p = sort_key (\<lambda>t. - item x (p @ [t])) [0..<last (shape x)]"

definition topk_last :: "tensor \<Rightarrow> int \<Rightarrow> (tensor \<times> index_tensor) result" where
  \<comment> \<open>\<^verbatim>\<open>torch.topk(x, k, dim=-1)\<close>: \<open>k\<close> must lie between 0 and the size of the dimension\<close>
  "topk_last x k =
     (if shape x = [] \<or> k < 0 \<or> int (last (shape x)) < k then Inl RuntimeError
      else Inr (\<lparr>shape = butlast (shape x) @ [nat k],
                 item = (\<lambda>i. item x (butlast i @ [topk_order x (butlast i) ! last i]))\<rparr>,
                \<lparr>ishape = butlast (shape x) @ [nat k],
                 iitem = (\<lambda>i. topk_order x (butlast i) ! last i)\<rparr>))"

definition one_hot :: "index_tensor \<Rightarrow> nat \<Rightarrow> tensor result" where
  \<comment> \<open>\<^verbatim>\<open>F.one_hot(idx, num_classes).float()\<close>: an empty index tensor needs a positive number
      of classes, and every class value must be smaller than \<open>num_classes\<close>\<close>
  "one_hot idx num_classes =
     (if numel (ishape idx) = 0
      then (if num_classes = 0 then Inl RuntimeError
            else Inr \<lparr>shape = ishape idx @ [num_classes], item = (\<lambda>i. 0)\<rparr>)
      else if \<exists>i \<in> set (indices (ishape idx)). num_classes \<le> iitem idx i then Inl RuntimeError
      else Inr \<lparr>shape = ishape idx @ [num_classes],
                item = (\<lambda>i. if iitem idx (butlast i) = last i then 1 else 0)\<rparr>)"

definition einsum_BElT_BTC_BElC :: "tensor \<Rightarrow> tensor \<Rightarrow> tensor result" where
  "einsum_BElT_BTC_BElC p q =
     (case (shape p, shape q) of
        ([B1, E, l, T1], [B2, T2, C]) \<Rightarrow>
          and_then (broadcast_dim B1 B2) (\<lambda>B.
          and_then (broadcast_dim T1 T2) (\<lambda>T.
          Inr \<lparr>shape = [B, E, l, C],
               item = (\<lambda>i. case i of
                   [b, e, k, c] \<Rightarrow> (\<Sum>t\<leftarrow>[0..<T]. item p [bidx B1 b, e, k, bidx T1 t]
                                                   * item q [bidx B2 b, bidx T2 t, c])
                 | _ \<Rightarrow> 0)\<rparr>))
      | _ \<Rightarrow> Inl RuntimeError)"

definition einsum_BElC_ECH_BElH :: "tensor \<Rightarrow> tensor \<Rightarrow> tensor result" where
  "einsum_BElC_ECH_BElH p q =
     (case (shape p, shape q) of
        ([B, E1, l, C1], [E2, C2, H]) \<Rightarrow>
          and_then (broadcast_dim E1 E2) (\<lambda>E.
          and_then (broadcast_dim C1 C2) (\<lambda>C.
          Inr \<lparr>shape = [B, E, l, H],
               item = (\<lambda>i. case i of
                   [b, e, k, h] \<Rightarrow> (\<Sum>c\<leftarrow>[0..<C]. item p [b, bidx E1 e, k, bidx C1 c]
                                                   * item q [bidx E2 e, bidx C2 c, h])
                 | _ \<Rightarrow> 0)\<rparr>))
      | _ \<Rightarrow> Inl RuntimeError)"

definition einsum_BElH_EHC_BElC :: "tensor \<Rightarrow> tensor \<Rightarrow> tensor result" where
  "einsum_BElH_EHC_BElC p q =
     (case (shape p, shape q) of
        ([B, E1, l, H1], [E2, H2, C]) \<Rightarrow>
          and_then (broadcast_dim E1 E2) (\<lambda>E.
          and_then (broadcast_dim H1 H2) (\<lambda>H.
          Inr \<lparr>shape = [B, E, l, C],
               item = (\<lambda>i. case i of
                   [b, e, k, c] \<Rightarrow> (\<Sum>h\<leftarrow>[0..<H]. item p [b, bidx E1 e, k, bidx H1 h]
                                                   * item q [bidx E2 e, bidx H2 h, c])
                 | _ \<Rightarrow> 0)\<rparr>))
      | _ \<Rightarrow> Inl RuntimeError)"

definition einsum_BElC_BElT_BTC :: "tensor \<Rightarrow> tensor \<Rightarrow> tensor result" where
  "einsum_BElC_BElT_BTC p q =
     (case (shape p, shape q) of
        ([B1, E1, l1, C], [B2, E2, l2, T]) \<Rightarrow>
          and_then (broadcast_dim B1 B2) (\<lambda>B.
          and_then (broadcast_dim E1 E2) (\<lambda>E.
          and_then (broadcast_dim l1 l2) (\<lambda>l.
          Inr \<lparr>shape = [B, T, C],
               item = (\<lambda>i. case i of
                   [b, t, c] \<Rightarrow> (\<Sum>e\<leftarrow>[0..<E]. \<Sum>k\<leftarrow>[0..<l].
                                     item p [bidx B1 b, bidx E1 e, bidx l1 k, c]
                                   * item q [bidx B2 b, bidx E2 e, bidx l2 k, t])
                 | _ \<Rightarrow> 0)\<rparr>)))
      | _ \<Rightarrow> Inl RuntimeError)"

section \<open>FeedForwardECMoe: forward\<close>

definition FeedForwardECMoe_tokens_per_expert ::
  "(real \<Rightarrow> real) \<Rightarrow> real \<Rightarrow> int \<Rightarrow> nat \<Rightarrow> int result" where
  \<comment> \<open>\<^verbatim>\<open>int(self.expert_capacity * T / self.num_experts)\<close>: the product is rounded to a float,
      the quotient is rounded to a float, and \<^verbatim>\<open>int\<close> truncates it\<close>
  "FeedForwardECMoe_tokens_per_expert fl expert_capacity num_experts T =
     and_then (py_truediv (fl (expert_capacity * real T)) (real_of_int num_experts)) (\<lambda>q.
     Inr (py_int (fl q)))"

definition FeedForwardECMoe_route ::
  "(real \<Rightarrow> real) \<Rightarrow> FeedForwardECMoe \<Rightarrow> tensor \<Rightarrow> (tensor \<times> index_tensor) result" where
  \<comment> \<open>the forward pass up to \<^verbatim>\<open>torch.topk\<close>: the probabilities and the tokens each expert selects\<close>
  "FeedForwardECMoe_route fl self x =
     and_then (py_assert (length (shape x) = 3)) (\<lambda>_.
     let T = shape x ! 1 in
     and_then (FeedForwardECMoe_tokens_per_expert fl (moe_expert_capacity self) (moe_num_experts self) T)
       (\<lambda>tokens_per_expert.
     and_then (Linear_forward (moe_gate self) x) (\<lambda>scores.
     let probs = softmax_last scores in
     and_then (permute_0_2_1 probs) (\<lambda>probs_expert_looking_at_all_tokens.
     topk_last probs_expert_looking_at_all_tokens tokens_per_expert))))"

definition FeedForwardECMoe_forward ::
  "(real \<Rightarrow> real) \<Rightarrow> FeedForwardECMoe \<Rightarrow> tensor \<Rightarrow> tensor result" where
  "FeedForwardECMoe_forward fl self x =
     and_then (FeedForwardECMoe_route fl self x) (\<lambda>(expert_specific_token_probs, expert_specific_tokens).
     let T = shape x ! 1 in
     and_then (one_hot expert_specific_tokens T) (\<lambda>extract_from_x_one_hot.
     and_then (einsum_BElT_BTC_BElC extract_from_x_one_hot x) (\<lambda>xin.
     and_then (einsum_BElC_ECH_BElH xin (moe_w1 self)) (\<lambda>activation.
     let activation = tensor_map (moe_gelu self) activation in
     and_then (einsum_BElH_EHC_BElC activation (moe_w2 self)) (\<lambda>activation.
     and_then (tensor_unsqueeze expert_specific_token_probs (- 1)) (\<lambda>p.
     and_then (tensor_mul activation p) (\<lambda>activation.
     einsum_BElC_BElT_BTC activation extract_from_x_one_hot)))))))"

text \<open>
  The shapes that \<^verbatim>\<open>FeedForwardECMoe.__init__\<close> gives to the gate and to the expert
  weights, for \<open>E\<close> experts, \<open>C\<close> channels and the hidden width \<open>H\<close> it was called with.
\<close>

definition moe_well_shaped :: "FeedForwardECMoe \<Rightarrow> nat \<Rightarrow> nat \<Rightarrow> nat \<Rightarrow> bool" where
  "moe_well_shaped self E C H \<longleftrightarrow>
     moe_num_experts self = int E \<and> moe_n_embd self = int C
     \<and> in_features (moe_gate self) = C \<and> out_features (moe_gate self) = E
     \<and> shape (weight (moe_gate self)) = [E, C] \<and> bias (moe_gate self) = None
     \<and> shape (moe_w1 self) = [E, C, H] \<and> shape (moe_w2 self) = [E, H, C]"

section \<open>Initialisation of the feed-forward weights\<close>

text \<open>
  \<^verbatim>\<open>nn.init.trunc_normal_(w, mean, std)\<close> overwrites a weight with draws from a normal
  distribution cut off at the default bounds \<open>a = -2\<close>, \<open>b = 2\<close>. The model records, for
  each weight, the distribution it was last drawn from.
\<close>

record trunc_normal =
  tn_mean :: real
  tn_std :: real
  tn_a :: real
  tn_b :: real

type_synonym init_state = "string \<rightharpoonup> trunc_normal"

definition init_trunc_normal :: "string \<Rightarrow> real \<Rightarrow> real \<Rightarrow> init_state \<Rightarrow> init_state" where
  "init_trunc_normal w mean std s = s(w \<mapsto> \<lparr>tn_mean = mean, tn_std = std, tn_a = - 2, tn_b = 2\<rparr>)"

definition FeedForwardNetwork_custom_init :: "real \<Rightarrow> init_state \<Rightarrow> init_state" where
  "FeedForwardNetwork_custom_init init_std s =
     (let s = init_trunc_normal ''fc1.weight'' 0 (2 / 100) s in
      fold (\<lambda>linear. init_trunc_normal (linear @ ''.weight'') 0 init_std) [''fc2'', ''fc3''] s)"

definition FeedForwardECMoe_custom_init :: "real \<Rightarrow> init_state \<Rightarrow> init_state" where
  "FeedForwardECMoe_custom_init init_std s =
     (let s = init_trunc_normal ''gate.weight'' 0 (2 / 100) s;
          s = init_trunc_normal ''w1'' 0 (2 / 100) s
      in init_trunc_normal ''w2'' 0 init_std s)"

section \<open>FeedForwardNetwork: forward\<close>

definition silu :: "real \<Rightarrow> real" where
  "silu v = v / (1 + exp (- v))"

definition FeedForwardNetwork_forward :: "FeedForwardNetwork \<Rightarrow> tensor \<Rightarrow> tensor result" where
  "FeedForwardNetwork_forward self x =
     and_then (Linear_forward (ffn_fc1 self) x) (\<lambda>h1.
     and_then (Linear_forward (ffn_fc2 self) x) (\<lambda>h2.
     and_then (tensor_mul (tensor_map silu h1) h2) (\<lambda>h.
     Linear_forward (ffn_fc3 self) h)))"

section \<open>DiTBlock: forward\<close>

definition gelu_tanh :: "real \<Rightarrow> real" where
  \<comment> \<open>\<^verbatim>\<open>nn.GELU(approximate="tanh")\<close>\<close>
  "gelu_tanh v = v / 2 * (1 + tanh (sqrt (2 / pi) * (v + 44715 / 1000000 * v ^ 3)))"

definition tensor_split_last :: "tensor \<Rightarrow> int \<Rightarrow> tensor list result" where
  \<comment> \<open>\<^verbatim>\<open>x.split(split_size, dim=-1)\<close>: chunks of \<open>split_size\<close> entries, the last one shorter;
      a size of 0 is allowed on an empty dimension only\<close>
  "tensor_split_last x split_size =
     (if shape x = [] then Inl IndexError
      else let D = last (shape x) in
        if split_size < 0 then Inl RuntimeError
        else if split_size = 0 then (if D = 0 then Inr [x] else Inl RuntimeError)
        else let n = nat split_size; chunks = max 1 ((D + n - 1) div n) in
          Inr (map (\<lambda>j. \<lparr>shape = butlast (shape x) @ [min n (D - j * n)],
                           item = (\<lambda>i. item x (butlast i @ [last i + j * n]))\<rparr>)
                   [0..<chunks]))"

text \<open>
  The methods of \<^verbatim>\<open>torch.Tensor\<close> with one integer argument that the forward pass can
  reach by name. A name that is not an attribute of \<^verbatim>\<open>torch.Tensor\<close> raises
  AttributeError when it is looked up.
\<close>

definition Tensor_methods :: "(string \<times> (tensor \<Rightarrow> int \<Rightarrow> tensor result)) list" where
  "Tensor_methods = [(''unsqueeze'', tensor_unsqueeze)]"

definition Tensor_getattr :: "string \<Rightarrow> (tensor \<Rightarrow> int \<Rightarrow> tensor result) result" where
  "Tensor_getattr name =
     (case map_of Tensor_methods name of None \<Rightarrow> Inl AttributeError | Some m \<Rightarrow> Inr m)"

definition modulate :: "tensor \<Rightarrow> tensor \<Rightarrow> tensor \<Rightarrow> tensor result" where
  \<comment> \<open>Modelled from the spec: \<^verbatim>\<open>modulate\<close> is imported from \<^verbatim>\<open>.modules\<close>, which is not
      among the sources. The spec gives
      \<^verbatim>\<open>modulate(h, shift, scale) = h * (1 + scale.unsqueeze(token_axis)) + shift.unsqueeze(token_axis)\<close>,
      the token axis being axis 1.\<close>
  "modulate h shift scale =
     and_then (tensor_unsqueeze scale 1) (\<lambda>sc.
     and_then (tensor_mul h (tensor_map (\<lambda>v. 1 + v) sc)) (\<lambda>hs.
     and_then (tensor_unsqueeze shift 1) (\<lambda>sh.
     tensor_add hs sh)))"

definition mlp_forward :: "(real \<Rightarrow> real) \<Rightarrow> mlp \<Rightarrow> tensor \<Rightarrow> tensor result" where
  "mlp_forward fl m x =
     (case m of Dense f \<Rightarrow> FeedForwardNetwork_forward f x
      | Moe e \<Rightarrow> FeedForwardECMoe_forward fl e x)"

text \<open>The local variables of \<^verbatim>\<open>DiTBlock.forward\<close> once the modulation has been split.\<close>

record forward_locals =
  loc_x :: tensor
  loc_c :: tensor
  loc_t :: tensor
  shift_msa :: tensor
  scale_msa :: tensor
  gate_msa :: tensor
  shift_mlp :: tensor
  scale_mlp :: tensor
  gate_mlp :: tensor

definition DiTBlock_forward_modulation ::
  "('n, 'a, 'x) DiTBlock \<Rightarrow> tensor \<Rightarrow> tensor \<Rightarrow> tensor \<Rightarrow> forward_locals result" where
  \<comment> \<open>\<^verbatim>\<open>... = self.AdaLN_modulation(t).split(self.n_embd, dim=-1)\<close>, unpacked into six names\<close>
  "DiTBlock_forward_modulation self x c t =
     and_then (Linear_forward (blk_AdaLN_modulation self) (tensor_map gelu_tanh t)) (\<lambda>m.
     and_then (tensor_split_last m (blk_n_embd self)) (\<lambda>chunks.
     case chunks of
       [s1, s2, s3, s4, s5, s6] \<Rightarrow>
         Inr \<lparr>loc_x = x, loc_c = c, loc_t = t, shift_msa = s1, scale_msa = s2, gate_msa = s3,
              shift_mlp = s4, scale_mlp = s5, gate_mlp = s6\<rparr>
     | _ \<Rightarrow> Inl ValueError))"

definition DiTBlock_forward_self_attention ::
  "('n, 'a, 'x) modules \<Rightarrow> ('n, 'a, 'x) DiTBlock \<Rightarrow> forward_locals \<Rightarrow> forward_locals result" where
  \<comment> \<open>\<^verbatim>\<open>x = x + gate_msa.unqueeze(1) * self.attn(modulate(self.ln1(x), shift=shift_msa, scale=scale_msa))\<close>\<close>
  "DiTBlock_forward_self_attention md self l =
     and_then (Tensor_getattr ''unqueeze'') (\<lambda>method.
     and_then (method (gate_msa l) 1) (\<lambda>g.
     and_then (norm_forward md (blk_ln1 self) (loc_x l)) (\<lambda>h.
     and_then (modulate h (shift_msa l) (scale_msa l)) (\<lambda>m.
     and_then (SelfAttention_forward md (blk_attn self) m) (\<lambda>a.
     and_then (tensor_mul g a) (\<lambda>ga.
     and_then (tensor_add (loc_x l) ga) (\<lambda>x'.
     Inr (l\<lparr>loc_x := x'\<rparr>))))))))"

definition DiTBlock_forward_cross_attention ::
  "('n, 'a, 'x) modules \<Rightarrow> ('n, 'a, 'x) DiTBlock \<Rightarrow> forward_locals \<Rightarrow> forward_locals result" where
  \<comment> \<open>\<^verbatim>\<open>x = x + self.cx_attn (self.ln2(x), c)\<close>\<close>
  "DiTBlock_forward_cross_attention md self l =
     and_then (norm_forward md (blk_ln2 self) (loc_x l)) (\<lambda>h.
     and_then (CrossAttention_forward md (blk_cx_attn self) h (loc_c l)) (\<lambda>a.
     and_then (tensor_add (loc_x l) a) (\<lambda>x'.
     Inr (l\<lparr>loc_x := x'\<rparr>))))"

definition DiTBlock_forward_feed_forward ::
  "('n, 'a, 'x) modules \<Rightarrow> ('n, 'a, 'x) DiTBlock \<Rightarrow> forward_locals \<Rightarrow> forward_locals result" where
  \<comment> \<open>\<^verbatim>\<open>x = x + gate_mlp.unsqueeze(1)*self.mlp(modulate(self.ln3(x), shift=shift_mlp, scale=scale_mlp))\<close>\<close>
  "DiTBlock_forward_feed_forward md self l =
     and_then (Tensor_getattr ''unsqueeze'') (\<lambda>method.
     and_then (method (gate_mlp l) 1) (\<lambda>g.
     and_then (norm_forward md (blk_ln3 self) (loc_x l)) (\<lambda>h.
     and_then (modulate h (shift_mlp l) (scale_mlp l)) (\<lambda>m.
     and_then (mlp_forward (float_round md) (blk_mlp self) m) (\<lambda>a.
     and_then (tensor_mul g a) (\<lambda>ga.
     and_then (tensor_add (loc_x l) ga) (\<lambda>x'.
     Inr (l\<lparr>loc_x := x'\<rparr>))))))))"

definition DiTBlock_forward ::
  "('n, 'a, 'x) modules \<Rightarrow> ('n, 'a, 'x) DiTBlock \<Rightarrow> tensor \<Rightarrow> tensor \<Rightarrow> tensor \<Rightarrow> tensor result" where
  "DiTBlock_forward md self x c t =
     and_then (DiTBlock_forward_modulation self x c t) (\<lambda>l.
     and_then (DiTBlock_forward_self_attention md self l) (\<lambda>l.
     and_then (DiTBlock_forward_cross_attention md self l) (\<lambda>l.
     and_then (DiTBlock_forward_feed_forward md self l) (\<lambda>l.
     Inr (loc_x l)))))"

section \<open>Example configurations\<close>

text \<open>
  Collaborators that always construct and whose forward passes return their input, with
  arithmetic that needs no rounding, a generator that draws zeros, and a small configuration: 4 channels, heads of size 2,
  12 blocks.
\<close>

definition identity_modules :: "(unit, unit, unit) modules" where
  "identity_modules =
     \<lparr>create_norm = (\<lambda>kind dim eps. Inr ()),
      SelfAttention = (\<lambda>n_embd n_head qkv_bias n_hidden norm_eps. Inr ()),
      CrossAttention = (\<lambda>n_embd n_head n_hidden norm_eps qkv_bias. Inr ()),
      norm_forward = (\<lambda>n x. Inr x),
      SelfAttention_forward = (\<lambda>a x. Inr x),
      CrossAttention_forward = (\<lambda>a x c. Inr x),
      float_round = id\<rparr>"

definition zero_env :: torch_env where
  "zero_env = \<lparr>env_draw = (\<lambda>name i. 0), env_GELU = (\<lambda>x. x)\<rparr>"

definition small_args :: "bool \<Rightarrow> int \<Rightarrow> bool \<Rightarrow> DiTBlock_args" where
  "small_args depth_init block_index use_moe =
     \<lparr>arg_n_embd = 4, arg_head_size = 2, arg_mlp_n_hidden_mult = 4, arg_qkv_n_hidden_mult = 1,
      arg_hidden_base_mult = 8, arg_pooled_caption_n_embd = 3, arg_norm_eps = 1 / 1000000,
      arg_depth_init = depth_init, arg_block_index = block_index, arg_num_blocks = 12,
      arg_scale_cx_attn_n_hidden = False, arg_use_bias = False, arg_use_moe = use_moe,
      arg_num_experts = 2, arg_expert_capacity = 1\<rparr>"

text \<open>
  An Expert-Choice layer with \<open>E\<close> experts over one channel, all weights 1, and an input
  of one batch element with \<open>T\<close> tokens.
\<close>

definition example_moe :: "nat \<Rightarrow> real \<Rightarrow> FeedForwardECMoe" where
  "example_moe E cap =
     \<lparr>moe_num_experts = int E, moe_expert_capacity = cap, moe_n_embd = 1,
      moe_hidden_base_mult = 1, moe_n_hidden = 1,
      moe_gate = \<lparr>in_features = 1, out_features = E,
                  weight = \<lparr>shape = [E, 1], item = (\<lambda>i. 1)\<rparr>, bias = None\<rparr>,
      moe_w1 = \<lparr>shape = [E, 1, 1], item = (\<lambda>i. 1)\<rparr>,
      moe_gelu = (\<lambda>v. v),
      moe_w2 = \<lparr>shape = [E, 1, 1], item = (\<lambda>i. 1)\<rparr>\<rparr>"

definition example_x :: "nat \<Rightarrow> tensor" where
  "example_x T = \<lparr>shape = [1, T, 1], item = (\<lambda>i. 1)\<rparr>"

text \<open>A tensor of ones of a given shape.\<close>

definition example_tensor :: "nat list \<Rightarrow> tensor" where
  "example_tensor s = \<lparr>shape = s, item = (\<lambda>i. 1)\<rparr>"

section \<open>Results and errors\<close>

lemma and_then_Inr [simp]: "and_then (Inr v) f = f v"
  by (simp add: and_then_def)

lemma and_then_Inl [simp]: "and_then (Inl e) f = Inl e"
  by (simp add: and_then_def)

lemma and_then_eq_Inr: "and_then r f = Inr y \<longleftrightarrow> (\<exists>v. r = Inr v \<and> f v = Inr y)"
  by (cases r) simp_all

lemma not_Inr_iff_Inl: "(\<forall>v. r \<noteq> Inr v) \<longleftrightarrow> (\<exists>e. r = Inl e)"
  by (cases r) simp_all

section \<open>Hidden widths\<close>







section \<open>Construction of the Expert-Choice layer\<close>

lemma FeedForwardECMoe_init_not_Inr:
  "FeedForwardECMoe_init draw gelu num_experts expert_capacity n_embd n_hidden hidden_base_mult \<noteq> Inr m"
  by (auto simp: FeedForwardECMoe_init_def FeedForwardECMoe_init_run_def Module_assign_module_def
      and_then_eq_Inr Let_def split: sum.splits)

lemma DiTBlock_init_mlp:
  assumes "DiTBlock_init env md a = Inr blk"
  shows "\<not> arg_use_moe a"
proof
  assume moe: "arg_use_moe a"
  from assms show False
    unfolding DiTBlock_init_def Let_def
    by (auto simp: and_then_eq_Inr moe FeedForwardECMoe_init_not_Inr)
qed

text \<open>
  C2. For every argument tuple the constructor of FeedForwardECMoe raises. When the
  base unit is not zero and the sizes of the gate are not negative, so that the gate can
  be built, the error is the AttributeError of assigning a module before the base-class
  initialiser has run. A DiTBlock with \<open>use_moe\<close> set is therefore never constructed.
\<close>

theorem FeedForwardECMoe_never_constructed:
  "(\<exists>e. FeedForwardECMoe_init draw gelu num_experts expert_capacity n_embd n_hidden hidden_base_mult = Inl e)
   \<and> (hidden_base_mult \<noteq> 0 \<and> 0 \<le> n_embd \<and> 0 \<le> num_experts \<longrightarrow>
        FeedForwardECMoe_init draw gelu num_experts expert_capacity n_embd n_hidden hidden_base_mult
          = Inl AttributeError)
   \<and> (arg_use_moe a \<longrightarrow> (\<exists>e. DiTBlock_init env md a = Inl e))"
proof (intro conjI impI)
  show "\<exists>e. FeedForwardECMoe_init draw gelu num_experts expert_capacity n_embd n_hidden hidden_base_mult = Inl e"
    using FeedForwardECMoe_init_not_Inr not_Inr_iff_Inl by metis
next
  assume "hidden_base_mult \<noteq> 0 \<and> 0 \<le> n_embd \<and> 0 \<le> num_experts"
  then show "FeedForwardECMoe_init draw gelu num_experts expert_capacity n_embd n_hidden hidden_base_mult
          = Inl AttributeError"
    by (simp add: FeedForwardECMoe_init_def FeedForwardECMoe_init_run_def
        FeedForwardECMoe_n_hidden_def py_floordiv_def Linear_new_def Module_assign_module_def)
next
  assume "arg_use_moe a"
  then have "\<forall>blk. DiTBlock_init env md a \<noteq> Inr blk"
    using DiTBlock_init_mlp by blast
  then show "\<exists>e. DiTBlock_init env md a = Inl e"
    by (simp add: not_Inr_iff_Inl)
qed

theorem FeedForwardECMoe_never_constructed_witness:
  "FeedForwardECMoe_init (\<lambda>name i. 0) (\<lambda>x. x) 2 1 4 16 8 = Inl AttributeError
   \<and> arg_use_moe (small_args True 0 True)
   \<and> (\<exists>e. DiTBlock_init zero_env identity_modules (small_args True 0 True) = Inl e)"
  using FeedForwardECMoe_never_constructed
    [of "\<lambda>name i. 0" "\<lambda>x. x" 2 1 4 16 8 "small_args True 0 True" zero_env identity_modules]
  by (simp add: small_args_def)

section \<open>Construction of the block\<close>



lemma small_args_constructed:
  "\<exists>blk. DiTBlock_init zero_env identity_modules (small_args True 0 False) = Inr blk"
  "\<exists>blk. DiTBlock_init zero_env identity_modules (small_args False 7 False) = Inr blk"
  by (simp add: DiTBlock_init_def small_args_def identity_modules_def zero_env_def
      py_mod_def py_assert_def DiTBlock_qkv_n_hidden_def Module_assign_module_def py_floordiv_def
      FeedForwardNetwork_init_def FeedForwardNetwork_n_hidden_def Linear_new_def py_int_def
      DiTBlock_weight_init_std_def py_float_div_def py_pow_half_def Let_def)+



text \<open>
  With \<open>qkv_n_hidden_mult = 1\<close> the attention hidden width is \<open>n_embd\<close> itself: for
  12 channels and heads of size 4 it is 12, which 8 does not divide.
\<close>

theorem qkv_n_hidden_mult_one_counterexample:
  "DiTBlock_qkv_n_hidden 1 12 4 = Inr 12 \<and> (12::int) mod 4 = 0 \<and> \<not> (2 * 4) dvd (12::int)"
  by (simp add: DiTBlock_qkv_n_hidden_def)

text \<open>
  C9, amended. When \<open>n_embd\<close> is divisible by \<open>head_size\<close>, the derived self-attention
  hidden width is a multiple of \<open>head_size\<close>; it is a multiple of \<open>2 * head_size\<close>
  whenever \<open>qkv_n_hidden_mult\<close> differs from 1, and it is \<open>n_embd\<close> itself when
  \<open>qkv_n_hidden_mult\<close> is 1.
\<close>

theorem qkv_n_hidden_multiple:
  assumes "n_embd mod head_size = 0" "head_size \<noteq> 0"
  shows "\<exists>q. DiTBlock_qkv_n_hidden qkv_n_hidden_mult n_embd head_size = Inr q
           \<and> head_size dvd q
           \<and> (qkv_n_hidden_mult \<noteq> 1 \<longrightarrow> (2 * head_size) dvd q)
           \<and> (qkv_n_hidden_mult = 1 \<longrightarrow> q = n_embd)"
  using assms
  by (auto simp: DiTBlock_qkv_n_hidden_def py_floordiv_def)

theorem qkv_n_hidden_multiple_witness:
  "(12::int) mod 4 = 0 \<and> (4::int) \<noteq> 0
     \<and> DiTBlock_qkv_n_hidden (3 / 2) 12 4 = Inr 24 \<and> (2 * 4) dvd (24::int)"
proof -
  have h: "(12::int) mod 4 = 0" "(4::int) \<noteq> 0" by simp_all
  have "py_int (3 / 2 * real_of_int 12) = 18"
    by (simp add: py_int_def)
  then have "DiTBlock_qkv_n_hidden (3 / 2) 12 4 = Inr 24"
    by (simp add: DiTBlock_qkv_n_hidden_def py_floordiv_def)
  with qkv_n_hidden_multiple [OF h, of "3 / 2"] show ?thesis by simp
qed

section \<open>Expert-Choice routing\<close>

text \<open>
  With a capacity factor of 2, one expert and 4 tokens, the per-expert capacity is 8,
  more than the 4 tokens of the sequence. (Every number here is a small integer, which
  no rounding changes.)
\<close>

theorem capacity_above_tokens_counterexample:
  "FeedForwardECMoe_tokens_per_expert id 2 1 4 = Inr 8 \<and> \<not> (8::int) \<le> int 4"
  by (simp add: FeedForwardECMoe_tokens_per_expert_def py_truediv_def py_int_def)

lemma py_int_le:
  assumes "q \<le> real n"
  shows "py_int q \<le> int n"
proof (cases "0 \<le> q")
  case True
  have "\<lfloor>q\<rfloor> \<le> \<lfloor>real n\<rfloor>" using assms by (rule floor_mono)
  then show ?thesis using True by (simp add: py_int_def)
next
  case False
  then show ?thesis using assms by (simp add: py_int_def ceiling_le_iff)
qed

text \<open>
  C4, amended. The per-expert capacity \<open>L = int(capacity_factor * T / num_experts)\<close> is at
  most \<open>T\<close> whenever the capacity factor is at most the number of experts (and there is
  at least one expert). This holds for the float arithmetic of the code: all that is used
  of its rounding \<open>fl\<close> is that it is monotone and leaves the integers \<open>num_experts * T\<close>
  and \<open>T\<close> as they are, as binary64 does for integers below \<open>2 ^ 53\<close>; exact arithmetic
  is the case where \<open>fl\<close> changes nothing. For a capacity factor that is not negative,
  \<open>L\<close> is the floor of the computed quotient.
\<close>

theorem capacity_at_most_tokens:
  assumes "0 < num_experts" "expert_capacity \<le> real_of_int num_experts"
    and "mono fl" "fl (real_of_int num_experts * real T) = real_of_int num_experts * real T"
    and "fl (real T) = real T"
  shows "\<exists>L. FeedForwardECMoe_tokens_per_expert fl expert_capacity num_experts T = Inr L \<and> L \<le> int T
           \<and> (0 \<le> expert_capacity \<and> fl 0 = 0 \<longrightarrow>
                L = \<lfloor>fl (fl (expert_capacity * real T) / real_of_int num_experts)\<rfloor>)"
proof -
  let ?p = "fl (expert_capacity * real T)"
  let ?q = "fl (?p / real_of_int num_experts)"
  have E: "0 < real_of_int num_experts" using assms(1) by simp
  have "expert_capacity * real T \<le> real_of_int num_experts * real T"
    using assms(2) by (simp add: mult_right_mono)
  then have "?p \<le> fl (real_of_int num_experts * real T)"
    using assms(3) by (simp add: monoD)
  then have "?p \<le> real_of_int num_experts * real T"
    by (simp add: assms(4))
  then have "?p / real_of_int num_experts \<le> real T"
    using E by (simp add: pos_divide_le_eq mult.commute)
  then have "?q \<le> fl (real T)"
    using assms(3) by (simp add: monoD)
  then have "?q \<le> real T" by (simp add: assms(5))
  then have le: "py_int ?q \<le> int T" by (rule py_int_le)
  have fl: "py_int ?q = \<lfloor>?q\<rfloor>" if c: "0 \<le> expert_capacity" and z: "fl 0 = 0"
  proof -
    have "0 \<le> expert_capacity * real T" using c by simp
    then have "fl 0 \<le> ?p" using assms(3) by (simp add: monoD)
    then have "0 \<le> ?p / real_of_int num_experts" using E z by simp
    then have "fl 0 \<le> ?q" using assms(3) by (simp add: monoD)
    then show ?thesis using z by (simp add: py_int_def)
  qed
  have "FeedForwardECMoe_tokens_per_expert fl expert_capacity num_experts T = Inr (py_int ?q)"
    using assms(1) by (simp add: FeedForwardECMoe_tokens_per_expert_def py_truediv_def)
  with le fl show ?thesis by simp
qed

theorem capacity_at_most_tokens_witness:
  "(0::int) < 4 \<and> (3 / 2 :: real) \<le> real_of_int 4 \<and> mono (id :: real \<Rightarrow> real)
     \<and> id (real_of_int 4 * real 10) = real_of_int 4 * real 10 \<and> id (real 10) = real 10
     \<and> FeedForwardECMoe_tokens_per_expert id (3 / 2) 4 10 = Inr 3 \<and> (3::int) \<le> int 10"
proof -
  have h: "(0::int) < 4" "(3 / 2 :: real) \<le> real_of_int 4" "mono (id :: real \<Rightarrow> real)"
    "id (real_of_int 4 * real 10) = real_of_int 4 * real 10" "id (real 10) = real 10"
    by (simp_all add: mono_def)
  have "\<lfloor>id (id (3 / 2 * real 10) / real_of_int 4)\<rfloor> = (3::int)"
    by (simp add: floor_eq_iff)
  with capacity_at_most_tokens [OF h] h show ?thesis by (auto simp: id_def)
qed

lemma route_topk:
  assumes ws: "moe_well_shaped self E C H" and sx: "shape x = [B, T, C]"
    and k: "FeedForwardECMoe_tokens_per_expert fl (moe_expert_capacity self) (moe_num_experts self) T = Inr k"
  shows "\<exists>pe. shape pe = [B, E, T] \<and> FeedForwardECMoe_route fl self x = topk_last pe k"
proof -
  have g: "in_features (moe_gate self) = C" "out_features (moe_gate self) = E"
    using ws by (simp_all add: moe_well_shaped_def)
  obtain scores where 1: "Linear_forward (moe_gate self) x = Inr scores" "shape scores = [B, T, E]"
    by (simp add: Linear_forward_def sx g)
  obtain pe where 2: "permute_0_2_1 (softmax_last scores) = Inr pe" "shape pe = [B, E, T]"
    by (simp add: permute_0_2_1_def softmax_last_def 1)
  have "FeedForwardECMoe_route fl self x = topk_last pe k"
    unfolding FeedForwardECMoe_route_def
    by (simp add: sx k 1 2 py_assert_def Let_def)
  with 2 show ?thesis by blast
qed

lemma topk_last_in_range:
  assumes "shape pe = [B, E, T]" "0 \<le> k" "k \<le> int T"
  shows "topk_last pe k =
           Inr (\<lparr>shape = [B, E, nat k],
                 item = (\<lambda>i. item pe (butlast i @ [topk_order pe (butlast i) ! last i]))\<rparr>,
                \<lparr>ishape = [B, E, nat k],
                 iitem = (\<lambda>i. topk_order pe (butlast i) ! last i)\<rparr>)"
  using assms by (simp add: topk_last_def)

lemma topk_last_out_of_range:
  assumes "shape pe = [B, E, T]" "k < 0 \<or> int T < k"
  shows "topk_last pe k = Inl RuntimeError"
  using assms by (auto simp: topk_last_def)

lemma route_shapes:
  assumes ws: "moe_well_shaped self E C H" and sx: "shape x = [B, T, C]"
    and k: "FeedForwardECMoe_tokens_per_expert fl (moe_expert_capacity self) (moe_num_experts self) T = Inr k"
    and k0: "0 \<le> k" and kT: "k \<le> int T"
  shows "\<exists>probs tokens. FeedForwardECMoe_route fl self x = Inr (probs, tokens)
           \<and> shape probs = [B, E, nat k] \<and> ishape tokens = [B, E, nat k]
           \<and> (\<forall>b e. \<exists>f :: nat \<Rightarrow> real. \<forall>l. iitem tokens [b, e, l] = sort_key f [0..<T] ! l)"
proof -
  from route_topk [OF ws sx k] obtain pe where pe: "shape pe = [B, E, T]"
    and r: "FeedForwardECMoe_route fl self x = topk_last pe k" by blast
  let ?tokens = "\<lparr>ishape = [B, E, nat k], iitem = (\<lambda>i. topk_order pe (butlast i) ! last i)\<rparr>"
  have "\<exists>f :: nat \<Rightarrow> real. \<forall>l. iitem ?tokens [b, e, l] = sort_key f [0..<T] ! l" for b e
    by (rule exI [of _ "\<lambda>t. - item pe ([b, e] @ [t])"]) (simp add: topk_order_def pe)
  then show ?thesis
    unfolding r topk_last_in_range [OF pe k0 kT] by simp
qed

lemma route_raises:
  assumes ws: "moe_well_shaped self E C H" and sx: "shape x = [B, T, C]"
    and k: "FeedForwardECMoe_tokens_per_expert fl (moe_expert_capacity self) (moe_num_experts self) T = Inr k"
    and out: "k < 0 \<or> int T < k"
  shows "FeedForwardECMoe_route fl self x = Inl RuntimeError"
proof -
  from route_topk [OF ws sx k] obtain pe where pe: "shape pe = [B, E, T]"
    and r: "FeedForwardECMoe_route fl self x = topk_last pe k" by blast
  show ?thesis
    unfolding r using pe out by (rule topk_last_out_of_range)
qed

lemma take_eq_map_nth: "k \<le> length xs \<Longrightarrow> map ((!) xs) [0..<k] = take k xs"
  by (rule nth_equalityI) simp_all

lemma sort_key_upt_prefix_distinct:
  assumes "k \<le> T"
  shows "distinct (map (\<lambda>l. sort_key f [0..<T] ! l) [0..<k])"
    and "\<forall>l<k. sort_key f [0..<T] ! l < T"
proof -
  let ?s = "sort_key f [0..<T]"
  have len: "length ?s = T" by simp
  have "map ((!) ?s) [0..<k] = take k ?s"
    using assms by (simp add: take_eq_map_nth)
  moreover have "distinct (take k ?s)" by (simp add: distinct_take)
  ultimately show "distinct (map (\<lambda>l. ?s ! l) [0..<k])" by simp
  show "\<forall>l<k. ?s ! l < T"
  proof (intro allI impI)
    fix l assume "l < k"
    then have "l < length ?s" using assms by simp
    then have "?s ! l \<in> set ?s" by (rule nth_mem)
    then show "?s ! l < T" by simp
  qed
qed

lemma example_moe_well_shaped: "moe_well_shaped (example_moe E cap) E 1 1"
  by (simp add: moe_well_shaped_def example_moe_def)

text \<open>
  With a capacity factor of 2, one expert and a sequence of one token, the capacity is
  \<open>floor (2 * 1 / 1) = 2\<close>, \<^verbatim>\<open>torch.topk\<close> is asked for 2 of 1 entries and the forward
  pass raises: no expert selects 2 tokens.
\<close>

theorem capacity_above_tokens_route_counterexample:
  "\<lfloor>moe_expert_capacity (example_moe 1 2) * real 1 / real 1\<rfloor> = 2
   \<and> FeedForwardECMoe_route id (example_moe 1 2) (example_x 1) = Inl RuntimeError"
  by (simp add: FeedForwardECMoe_route_def example_moe_def example_x_def py_assert_def
      FeedForwardECMoe_tokens_per_expert_def py_truediv_def py_int_def Linear_forward_def
      softmax_last_def permute_0_2_1_def topk_last_def)

text \<open>
  C3, amended. Let \<open>k\<close> be the capacity that the forward pass computes for a rank-3 input
  of shape \<open>(B, T, C)\<close>: \<open>int\<close> of the float quotient \<open>capacity_factor * T / E\<close>, with the
  rounding \<open>fl\<close> of the float arithmetic after the product and after the quotient,
  whatever that rounding is. It is the floor of the computed quotient when that is not
  negative (and may differ from the floor of the exact quotient). If \<open>0 \<le> k \<le> T\<close>, the
  routing returns and every expert selects in every batch element exactly \<open>k\<close> tokens:
  the index tensor has shape \<open>(B, E, k)\<close>, and the \<open>k\<close> entries of an expert are distinct
  positions of the sequence. If \<open>k > T\<close> or \<open>k < 0\<close>, \<^verbatim>\<open>torch.topk\<close> raises and
  nothing is selected.
\<close>

theorem experts_select_computed_capacity:
  assumes "moe_well_shaped self E C H" and "shape x = [B, T, C]"
    and "FeedForwardECMoe_tokens_per_expert fl (moe_expert_capacity self) (moe_num_experts self) T
           = Inr k"
  shows "k = py_int (fl (fl (moe_expert_capacity self * real T) / real E))
       \<and> (0 \<le> fl (fl (moe_expert_capacity self * real T) / real E) \<longrightarrow>
            k = \<lfloor>fl (fl (moe_expert_capacity self * real T) / real E)\<rfloor>)
       \<and> (0 \<le> k \<and> k \<le> int T \<longrightarrow>
            (\<exists>probs tokens. FeedForwardECMoe_route fl self x = Inr (probs, tokens)
               \<and> ishape tokens = [B, E, nat k] \<and> shape probs = ishape tokens
               \<and> (\<forall>b<B. \<forall>e<E.
                     distinct (map (\<lambda>l. iitem tokens [b, e, l]) [0..<nat k])
                     \<and> (\<forall>l < nat k. iitem tokens [b, e, l] < T))))
       \<and> (k < 0 \<or> int T < k \<longrightarrow> FeedForwardECMoe_route fl self x = Inl RuntimeError)"
proof (intro conjI impI)
  let ?q = "fl (fl (moe_expert_capacity self * real T) / real E)"
  have E: "moe_num_experts self = int E"
    using assms(1) by (simp add: moe_well_shaped_def)
  show k: "k = py_int ?q"
    using assms(3)
    by (auto simp: FeedForwardECMoe_tokens_per_expert_def py_truediv_def E and_then_eq_Inr
        split: if_splits)
  show "k = \<lfloor>?q\<rfloor>" if "0 \<le> ?q"
    using k that by (simp add: py_int_def)
next
  assume range: "0 \<le> k \<and> k \<le> int T"
  then have k0: "0 \<le> k" and kT: "k \<le> int T" by simp_all
  from route_shapes [OF assms k0 kT]
  obtain probs tokens where r: "FeedForwardECMoe_route fl self x = Inr (probs, tokens)"
    and sp: "shape probs = [B, E, nat k]" and st: "ishape tokens = [B, E, nat k]"
    and it: "\<forall>b e. \<exists>f :: nat \<Rightarrow> real. \<forall>l. iitem tokens [b, e, l] = sort_key f [0..<T] ! l"
    by blast
  have LT: "nat k \<le> T" using kT by simp
  have "distinct (map (\<lambda>l. iitem tokens [b, e, l]) [0..<nat k])
        \<and> (\<forall>l < nat k. iitem tokens [b, e, l] < T)" for b e
  proof -
    from it obtain f :: "nat \<Rightarrow> real" where f: "\<forall>l. iitem tokens [b, e, l] = sort_key f [0..<T] ! l"
      by blast
    show ?thesis
      using sort_key_upt_prefix_distinct [OF LT, of f] by (simp add: f)
  qed
  with r sp st show "\<exists>probs tokens. FeedForwardECMoe_route fl self x = Inr (probs, tokens)
               \<and> ishape tokens = [B, E, nat k] \<and> shape probs = ishape tokens
               \<and> (\<forall>b<B. \<forall>e<E.
                     distinct (map (\<lambda>l. iitem tokens [b, e, l]) [0..<nat k])
                     \<and> (\<forall>l < nat k. iitem tokens [b, e, l] < T))"
    by auto
next
  assume "k < 0 \<or> int T < k"
  with assms show "FeedForwardECMoe_route fl self x = Inl RuntimeError"
    by (rule route_raises)
qed

theorem experts_select_computed_capacity_witness:
  "moe_well_shaped (example_moe 2 1) 2 1 1 \<and> shape (example_x 2) = [1, 2, 1]
   \<and> FeedForwardECMoe_tokens_per_expert id (moe_expert_capacity (example_moe 2 1))
        (moe_num_experts (example_moe 2 1)) 2 = Inr 1
   \<and> (0::int) \<le> 1 \<and> (1::int) \<le> int 2
   \<and> (\<exists>probs tokens. FeedForwardECMoe_route id (example_moe 2 1) (example_x 2) = Inr (probs, tokens)
         \<and> ishape tokens = [1, 2, 1] \<and> iitem tokens [0, 0, 0] < 2 \<and> iitem tokens [0, 1, 0] < 2)
   \<and> moe_well_shaped (example_moe 1 2) 1 1 1 \<and> shape (example_x 1) = [1, 1, 1]
   \<and> FeedForwardECMoe_tokens_per_expert id (moe_expert_capacity (example_moe 1 2))
        (moe_num_experts (example_moe 1 2)) 1 = Inr 2
   \<and> int 1 < (2::int)"
proof -
  have h1: "moe_well_shaped (example_moe 2 1) 2 1 1"
    by (rule example_moe_well_shaped)
  have h2: "shape (example_x 2) = [1, 2, 1]"
    "FeedForwardECMoe_tokens_per_expert id (moe_expert_capacity (example_moe 2 1))
        (moe_num_experts (example_moe 2 1)) 2 = Inr 1"
    by (simp_all add: example_moe_def example_x_def FeedForwardECMoe_tokens_per_expert_def
        py_truediv_def py_int_def)
  have g1: "moe_well_shaped (example_moe 1 2) 1 1 1"
    by (rule example_moe_well_shaped)
  have g2: "shape (example_x 1) = [1, 1, 1]"
    "FeedForwardECMoe_tokens_per_expert id (moe_expert_capacity (example_moe 1 2))
        (moe_num_experts (example_moe 1 2)) 1 = Inr 2"
    by (simp_all add: example_moe_def example_x_def FeedForwardECMoe_tokens_per_expert_def
        py_truediv_def py_int_def)
  from experts_select_computed_capacity [OF h1 h2]
  have "\<exists>probs tokens. FeedForwardECMoe_route id (example_moe 2 1) (example_x 2) = Inr (probs, tokens)
         \<and> ishape tokens = [1, 2, 1] \<and> iitem tokens [0, 0, 0] < 2 \<and> iitem tokens [0, 1, 0] < 2"
    by auto
  with h1 h2 g1 g2 show ?thesis by simp
qed

lemma broadcast_dim_same [simp]: "broadcast_dim a a = Inr a"
  by (simp add: broadcast_dim_def)

lemma broadcast_dim_one [simp]: "broadcast_dim a (Suc 0) = Inr a"
  by (simp add: broadcast_dim_def)










section \<open>Distributions drawn by custom_init\<close>

lemma FeedForwardNetwork_custom_init_map:
  "FeedForwardNetwork_custom_init init_std s =
     s(''fc1.weight'' \<mapsto> \<lparr>tn_mean = 0, tn_std = 2 / 100, tn_a = - 2, tn_b = 2\<rparr>,
       ''fc2.weight'' \<mapsto> \<lparr>tn_mean = 0, tn_std = init_std, tn_a = - 2, tn_b = 2\<rparr>,
       ''fc3.weight'' \<mapsto> \<lparr>tn_mean = 0, tn_std = init_std, tn_a = - 2, tn_b = 2\<rparr>)"
  by (simp add: FeedForwardNetwork_custom_init_def init_trunc_normal_def)

lemma FeedForwardECMoe_custom_init_map:
  "FeedForwardECMoe_custom_init init_std s =
     s(''gate.weight'' \<mapsto> \<lparr>tn_mean = 0, tn_std = 2 / 100, tn_a = - 2, tn_b = 2\<rparr>,
       ''w1'' \<mapsto> \<lparr>tn_mean = 0, tn_std = 2 / 100, tn_a = - 2, tn_b = 2\<rparr>,
       ''w2'' \<mapsto> \<lparr>tn_mean = 0, tn_std = init_std, tn_a = - 2, tn_b = 2\<rparr>)"
  by (simp add: FeedForwardECMoe_custom_init_def init_trunc_normal_def)

text \<open>
  C8. The claim is that \<^verbatim>\<open>FeedForwardNetwork.custom_init\<close> draws both up-projections
  \<open>fc1\<close> and \<open>fc2\<close> with the fixed standard deviation 0.02 and only the down-projection
  \<open>fc3\<close> with \<open>init_std\<close>. The code draws \<open>fc1\<close> with 0.02 and both \<open>fc2\<close> and \<open>fc3\<close>
  with \<open>init_std\<close>: for \<open>init_std = 0.01\<close> the up-projection \<open>fc2\<close> has standard
  deviation 0.01. The Expert-Choice layer beside it does what the claim says: its
  up-projection \<open>w1\<close> is drawn with 0.02 and only its down-projection \<open>w2\<close> with
  \<open>init_std\<close>.
\<close>

theorem custom_init_second_branch:
  "map_option tn_std (FeedForwardNetwork_custom_init init_std s ''fc1.weight'') = Some (2 / 100)
   \<and> map_option tn_std (FeedForwardNetwork_custom_init init_std s ''fc2.weight'') = Some init_std
   \<and> map_option tn_std (FeedForwardNetwork_custom_init init_std s ''fc3.weight'') = Some init_std
   \<and> map_option tn_std (FeedForwardECMoe_custom_init init_std s ''w1'') = Some (2 / 100)
   \<and> map_option tn_std (FeedForwardECMoe_custom_init init_std s ''w2'') = Some init_std
   \<and> map_option tn_std (FeedForwardNetwork_custom_init (1 / 100) Map.empty ''fc2.weight'')
        = Some (1 / 100)
   \<and> (1 / 100 :: real) \<noteq> 2 / 100"
proof -
  have f: "map_option tn_std (FeedForwardNetwork_custom_init d s' ''fc1.weight'') = Some (2 / 100)"
    "map_option tn_std (FeedForwardNetwork_custom_init d s' ''fc2.weight'') = Some d"
    "map_option tn_std (FeedForwardNetwork_custom_init d s' ''fc3.weight'') = Some d" for d s'
    unfolding FeedForwardNetwork_custom_init_map by simp_all
  have m: "map_option tn_std (FeedForwardECMoe_custom_init init_std s ''w1'') = Some (2 / 100)"
    "map_option tn_std (FeedForwardECMoe_custom_init init_std s ''w2'') = Some init_std"
    unfolding FeedForwardECMoe_custom_init_map by simp_all
  show ?thesis
    using f [of init_std s] f(2) [of "1 / 100" Map.empty] m by simp
qed

section \<open>The forward pass of the block\<close>

lemma self_attention_raises:
  "DiTBlock_forward_self_attention md self l = Inl AttributeError"
  by (simp add: DiTBlock_forward_self_attention_def Tensor_getattr_def Tensor_methods_def)

lemma example_modulation:
  assumes "DiTBlock_init zero_env identity_modules (small_args True 0 False) = Inr blk"
  shows "\<exists>l. DiTBlock_forward_modulation blk (example_tensor [1, 2, 4]) (example_tensor [1, 3, 4])
            (example_tensor [1, 3]) = Inr l \<and> loc_x l = example_tensor [1, 2, 4]"
proof -
  have a: "blk_AdaLN_modulation blk = \<lparr>in_features = 3, out_features = 24,
                weight = \<lparr>shape = [24, 3], item = (\<lambda>i. 0)\<rparr>,
                bias = Some \<lparr>shape = [24], item = (\<lambda>i. 0)\<rparr>\<rparr>" and n: "blk_n_embd blk = 4"
    using assms unfolding DiTBlock_init_def Let_def
    by (auto simp: and_then_eq_Inr small_args_def zero_env_def Linear_new_def Module_assign_module_def)
  have u: "[0..<6] = [0, 1, 2, 3, 4, 5]"
    by (simp add: upt_rec)
  show ?thesis
    by (simp add: DiTBlock_forward_modulation_def a n Linear_forward_def example_tensor_def
        tensor_map_def tensor_split_last_def Let_def u)
qed

text \<open>
  C1. The claim is that \<^verbatim>\<open>DiTBlock.forward(x, c, t)\<close> returns a tensor of the shape of
  \<open>x\<close>. The forward pass as written returns nothing: whatever the block and the inputs,
  it raises. For a block that is constructed and inputs of shapes \<open>(1, 2, 4)\<close>,
  \<open>(1, 3, 4)\<close> and \<open>(1, 3)\<close> the modulation is computed and split, and the lookup of
  \<^verbatim>\<open>gate_msa.unqueeze\<close> raises AttributeError.
\<close>

theorem DiTBlock_forward_raises:
  "(\<exists>e. DiTBlock_forward md self x c t = Inl e)
   \<and> (\<exists>blk. DiTBlock_init zero_env identity_modules (small_args True 0 False) = Inr blk
         \<and> DiTBlock_forward identity_modules blk (example_tensor [1, 2, 4]) (example_tensor [1, 3, 4])
             (example_tensor [1, 3]) = Inl AttributeError)"
proof
  show "\<exists>e. DiTBlock_forward md self x c t = Inl e"
    by (cases "DiTBlock_forward_modulation self x c t")
      (simp_all add: DiTBlock_forward_def self_attention_raises)
next
  obtain blk where b: "DiTBlock_init zero_env identity_modules (small_args True 0 False) = Inr blk"
    using small_args_constructed(1) by blast
  from example_modulation [OF b] obtain l
    where "DiTBlock_forward_modulation blk (example_tensor [1, 2, 4]) (example_tensor [1, 3, 4])
            (example_tensor [1, 3]) = Inr l" by blast
  then have "DiTBlock_forward identity_modules blk (example_tensor [1, 2, 4]) (example_tensor [1, 3, 4])
             (example_tensor [1, 3]) = Inl AttributeError"
    by (simp add: DiTBlock_forward_def self_attention_raises)
  with b show "\<exists>blk. DiTBlock_init zero_env identity_modules (small_args True 0 False) = Inr blk
         \<and> DiTBlock_forward identity_modules blk (example_tensor [1, 2, 4]) (example_tensor [1, 3, 4])
             (example_tensor [1, 3]) = Inl AttributeError"
    by blast
qed

lemma broadcast_shapes_rev_same: "broadcast_shapes_rev s s = Inr s"
  by (induction s) (simp_all add: broadcast_dim_def)

lemma broadcast_shapes_same: "broadcast_shapes s s = Inr s"
  by (simp add: broadcast_shapes_def broadcast_shapes_rev_same)

lemma broadcast_index_in_shape:
  assumes "list_all2 (<) i s"
  shows "broadcast_index s i = i"
proof (rule nth_equalityI)
  have len: "length i = length s" using assms by (rule list_all2_lengthD)
  then show "length (broadcast_index s i) = length i"
    by (simp add: broadcast_index_def)
  fix k assume "k < length (broadcast_index s i)"
  then have k: "k < length s" using len by (simp add: broadcast_index_def)
  then have "i ! k < s ! k" using assms by (simp add: list_all2_nthD2)
  then have "bidx (s ! k) (i ! k) = i ! k" by (simp add: bidx_def)
  then show "broadcast_index s i ! k = i ! k"
    using k len by (simp add: broadcast_index_def)
qed

lemma tensor_add_same_shape:
  assumes "tensor_add x a = Inr y" "shape a = shape x"
  shows "shape y = shape x"
    and "list_all2 (<) i (shape x) \<Longrightarrow> item y i = item x i + item a i"
  using assms
  by (auto simp: tensor_add_def tensor_binop_def broadcast_shapes_same broadcast_index_in_shape)

lemma cross_attention_unfold:
  "DiTBlock_forward_cross_attention md self l = Inr l' \<longleftrightarrow>
     (\<exists>h a. norm_forward md (blk_ln2 self) (loc_x l) = Inr h
        \<and> CrossAttention_forward md (blk_cx_attn self) h (loc_c l) = Inr a
        \<and> tensor_add (loc_x l) a = Inr (loc_x l') \<and> l' = l\<lparr>loc_x := loc_x l'\<rparr>)"
  by (auto simp: DiTBlock_forward_cross_attention_def and_then_eq_Inr)

lemma cross_attention_adds:
  assumes "DiTBlock_forward_cross_attention md self l = Inr l'"
  shows "\<exists>h a. norm_forward md (blk_ln2 self) (loc_x l) = Inr h
         \<and> CrossAttention_forward md (blk_cx_attn self) h (loc_c l) = Inr a
         \<and> tensor_add (loc_x l) a = Inr (loc_x l') \<and> l' = l\<lparr>loc_x := loc_x l'\<rparr>
         \<and> (shape a = shape (loc_x l) \<longrightarrow>
               shape (loc_x l') = shape (loc_x l)
               \<and> (\<forall>i. list_all2 (<) i (shape (loc_x l)) \<longrightarrow>
                      item (loc_x l') i = item (loc_x l) i + item a i))"
proof -
  from assms obtain h a where h: "norm_forward md (blk_ln2 self) (loc_x l) = Inr h"
    and a: "CrossAttention_forward md (blk_cx_attn self) h (loc_c l) = Inr a"
    and s: "tensor_add (loc_x l) a = Inr (loc_x l')" and l': "l' = l\<lparr>loc_x := loc_x l'\<rparr>"
    unfolding cross_attention_unfold by blast
  have "shape (loc_x l') = shape (loc_x l)
        \<and> (\<forall>i. list_all2 (<) i (shape (loc_x l)) \<longrightarrow> item (loc_x l') i = item (loc_x l) i + item a i)"
    if "shape a = shape (loc_x l)"
    using tensor_add_same_shape [OF s that] by blast
  with h a s l' show ?thesis by blast
qed

lemma feed_forward_modulated_and_gated:
  assumes "DiTBlock_forward_feed_forward md self l = Inr l'"
  shows "\<exists>g h m a ga. tensor_unsqueeze (gate_mlp l) 1 = Inr g
        \<and> norm_forward md (blk_ln3 self) (loc_x l) = Inr h
        \<and> modulate h (shift_mlp l) (scale_mlp l) = Inr m
        \<and> mlp_forward (float_round md) (blk_mlp self) m = Inr a
        \<and> tensor_mul g a = Inr ga
        \<and> tensor_add (loc_x l) ga = Inr (loc_x l')"
  using assms
  by (auto simp: DiTBlock_forward_feed_forward_def and_then_eq_Inr Tensor_getattr_def
      Tensor_methods_def)

lemma example_cross_attention:
  assumes "loc_x l = example_tensor [1, 2, 4]"
  shows "\<exists>l'. DiTBlock_forward_cross_attention identity_modules blk l = Inr l'
           \<and> shape (loc_x l') = [1, 2, 4] \<and> item (loc_x l') [0, 1, 3] = 2"
proof -
  have "\<exists>l'. DiTBlock_forward_cross_attention identity_modules blk l = Inr l'"
    by (simp add: DiTBlock_forward_cross_attention_def identity_modules_def assms
        example_tensor_def tensor_add_def tensor_binop_def broadcast_shapes_same)
  then obtain l' where c: "DiTBlock_forward_cross_attention identity_modules blk l = Inr l'"
    by blast
  from cross_attention_adds [OF c] obtain h a
    where h: "norm_forward identity_modules (blk_ln2 blk) (loc_x l) = Inr h"
      and a: "CrossAttention_forward identity_modules (blk_cx_attn blk) h (loc_c l) = Inr a"
      and s: "shape a = shape (loc_x l) \<longrightarrow>
               shape (loc_x l') = shape (loc_x l)
               \<and> (\<forall>i. list_all2 (<) i (shape (loc_x l)) \<longrightarrow>
                      item (loc_x l') i = item (loc_x l) i + item a i)"
    by blast
  have ha: "h = loc_x l" "a = loc_x l"
    using h a by (simp_all add: identity_modules_def)
  have r: "list_all2 (<) [0, 1, 3] (shape (loc_x l))"
    by (simp add: assms example_tensor_def)
  from s ha r have "shape (loc_x l') = shape (loc_x l)"
    and "item (loc_x l') [0, 1, 3] = item (loc_x l) [0, 1, 3] + item a [0, 1, 3]"
    by simp_all
  then have "shape (loc_x l') = [1, 2, 4]" "item (loc_x l') [0, 1, 3] = 2"
    by (simp_all add: ha assms example_tensor_def)
  with c show ?thesis by blast
qed

text \<open>
  C7. The claim is that the cross-attention step of \<^verbatim>\<open>DiTBlock.forward\<close> gets \<open>ln2(x)\<close>
  with no modulation and no gate, unlike the self-attention and feed-forward steps, which
  are modulated and gated. As the code runs, the self-attention step raises AttributeError
  at the lookup of \<^verbatim>\<open>gate_msa.unqueeze\<close>, whatever the block and the local variables: it
  is neither modulated nor gated, and the forward pass stops before the cross-attention
  line. That line is written as the claim says: its outcome does not depend on the six
  modulation tensors, and on the local variables with which the forward pass of a
  constructed block fails it would add the entries of \<open>cx_attn(ln2(x), c)\<close> to those of
  \<open>x\<close> (1 + 1 = 2 for a tensor of ones and collaborators that return their input).
\<close>

theorem cross_attention_unreached:
  "DiTBlock_forward_self_attention md self l = Inl AttributeError
   \<and> map_sum id loc_x (DiTBlock_forward_cross_attention md self
         (l\<lparr>shift_msa := s1, scale_msa := s2, gate_msa := s3,
            shift_mlp := s4, scale_mlp := s5, gate_mlp := s6\<rparr>))
       = map_sum id loc_x (DiTBlock_forward_cross_attention md self l)
   \<and> (\<exists>blk l0. DiTBlock_init zero_env identity_modules (small_args True 0 False) = Inr blk
         \<and> DiTBlock_forward_modulation blk (example_tensor [1, 2, 4]) (example_tensor [1, 3, 4])
             (example_tensor [1, 3]) = Inr l0
         \<and> DiTBlock_forward_self_attention identity_modules blk l0 = Inl AttributeError
         \<and> DiTBlock_forward identity_modules blk (example_tensor [1, 2, 4]) (example_tensor [1, 3, 4])
             (example_tensor [1, 3]) = Inl AttributeError
         \<and> (\<exists>l1. DiTBlock_forward_cross_attention identity_modules blk l0 = Inr l1
               \<and> shape (loc_x l1) = [1, 2, 4] \<and> item (loc_x l1) [0, 1, 3] = 2))"
proof (intro conjI)
  show "DiTBlock_forward_self_attention md self l = Inl AttributeError"
    by (rule self_attention_raises)
  show "map_sum id loc_x (DiTBlock_forward_cross_attention md self
         (l\<lparr>shift_msa := s1, scale_msa := s2, gate_msa := s3,
            shift_mlp := s4, scale_mlp := s5, gate_mlp := s6\<rparr>))
       = map_sum id loc_x (DiTBlock_forward_cross_attention md self l)"
    by (simp add: DiTBlock_forward_cross_attention_def and_then_def split: sum.splits)
  obtain blk where b: "DiTBlock_init zero_env identity_modules (small_args True 0 False) = Inr blk"
    using small_args_constructed(1) by blast
  from example_modulation [OF b] obtain l0
    where m: "DiTBlock_forward_modulation blk (example_tensor [1, 2, 4]) (example_tensor [1, 3, 4])
            (example_tensor [1, 3]) = Inr l0"
      and x: "loc_x l0 = example_tensor [1, 2, 4]" by blast
  have f: "DiTBlock_forward identity_modules blk (example_tensor [1, 2, 4]) (example_tensor [1, 3, 4])
             (example_tensor [1, 3]) = Inl AttributeError"
    unfolding DiTBlock_forward_def m by (simp add: self_attention_raises)
  from example_cross_attention [OF x, of blk] b m f self_attention_raises [of identity_modules blk l0]
  show "\<exists>blk l0. DiTBlock_init zero_env identity_modules (small_args True 0 False) = Inr blk
         \<and> DiTBlock_forward_modulation blk (example_tensor [1, 2, 4]) (example_tensor [1, 3, 4])
             (example_tensor [1, 3]) = Inr l0
         \<and> DiTBlock_forward_self_attention identity_modules blk l0 = Inl AttributeError
         \<and> DiTBlock_forward identity_modules blk (example_tensor [1, 2, 4]) (example_tensor [1, 3, 4])
             (example_tensor [1, 3]) = Inl AttributeError
         \<and> (\<exists>l1. DiTBlock_forward_cross_attention identity_modules blk l0 = Inr l1
               \<and> shape (loc_x l1) = [1, 2, 4] \<and> item (loc_x l1) [0, 1, 3] = 2)"
    by blast
qed


end
